theory Spec2Isabelle
  imports Complex_Main
begin

section \<open>Constants of the layout module\<close>

text \<open>
  The module \<open>arcadian_imgfit_stars.js\<close> opens with a handful of constants: the longest
  time the carousel may rotate, the time each item is held, the name of the event that
  announces the web fonts, and an enum of timeout lengths. All times are milliseconds.
\<close>

definition AUTO_ROTATE_MAX_DURATION :: int where
  "AUTO_ROTATE_MAX_DURATION = 30000"

definition ITEM_HOLD_DUR :: nat where
  "ITEM_HOLD_DUR = 3500"

definition FONTS_LOADED :: string where
  "FONTS_LOADED = ''fontsLoaded''"

datatype timeout = SHORT | MEDIUM | LONG | EXTRA_LONG

fun timeout_ms :: "timeout \<Rightarrow> nat" where
  "timeout_ms SHORT = 10"
| "timeout_ms MEDIUM = 125"
| "timeout_ms LONG = 750"
| "timeout_ms EXTRA_LONG = 2000"


section \<open>The rotation carousel\<close>

text \<open>
  The controller keeps \<open>itemsLimit\<close> and \<open>currentItemIndex\<close> on its scope; the module
  keeps \<open>autoCycleInterval\<close> (the handle \<open>window.setInterval\<close> returned) and
  \<open>autoCycleStartTime\<close>, both \<open>undefined\<close> (\<open>None\<close>) until first assigned. The browser's
  side of the timers is part of the state too: \<open>intervals\<close> lists the handles of the
  repeating timers that are registered and not cleared (each of them calls \<open>nextItem\<close>
  every \<open>ITEM_HOLD_DUR\<close> ms), \<open>next_handle\<close> is the handle the next \<open>setInterval\<close> returns
  (handles are integers greater than zero, each returned once), and \<open>timeouts\<close> lists the
  one-shot callbacks \<open>setTimeout\<close> has queued, with their delays.
\<close>

datatype task = RemoveHideClass | BuildAnimation

record layout_state =
  itemsLimit :: int
  currentItemIndex :: int
  autoCycleInterval :: "nat option"
  autoCycleStartTime :: "int option"
  intervals :: "nat list"
  next_handle :: nat
  timeouts :: "(task \<times> nat) list"

text \<open>
  The state right after \<open>LayoutController\<close> has run on a freshly loaded page:
  \<open>$scope.itemsLimit = 1; $scope.currentItemIndex = 0\<close>, no timer registered yet.
\<close>

definition LayoutController_init :: layout_state where
  "LayoutController_init =
     \<lparr> itemsLimit = 1, currentItemIndex = 0,
       autoCycleInterval = None, autoCycleStartTime = None,
       intervals = [], next_handle = 1, timeouts = [] \<rparr>"

text \<open>\<open>window.setInterval\<close>: registers a repeating timer and returns its fresh handle.\<close>

definition window_setInterval :: "layout_state \<Rightarrow> nat \<times> layout_state" where
  "window_setInterval s =
     (next_handle s,
      s\<lparr> intervals := intervals s @ [next_handle s], next_handle := Suc (next_handle s) \<rparr>)"

text \<open>
  \<open>clearInterval(v)\<close>: unregisters the timer with handle \<open>v\<close>; a value that is no handle
  of a registered timer (\<open>undefined\<close> included) is ignored.
\<close>

fun clearInterval :: "nat option \<Rightarrow> layout_state \<Rightarrow> layout_state" where
  "clearInterval None s = s"
| "clearInterval (Some h) s = s\<lparr> intervals := removeAll h (intervals s) \<rparr>"

text \<open>The truth value JavaScript gives \<open>autoCycleInterval\<close> in \<open>if (autoCycleInterval)\<close>.\<close>

fun truthy_handle :: "nat option \<Rightarrow> bool" where
  "truthy_handle None = False"
| "truthy_handle (Some h) = (h \<noteq> 0)"

text \<open>
  \<^verbatim>\<open>
  $scope.startInterval = function() {
    if (autoCycleInterval) { clearInterval(autoCycleInterval); }
    autoCycleInterval = window.setInterval($scope.nextItem, ITEM_HOLD_DUR);
  };\<close>
\<close>

definition startInterval :: "layout_state \<Rightarrow> layout_state" where
  "startInterval s =
     (let s1 = (if truthy_handle (autoCycleInterval s)
                then clearInterval (autoCycleInterval s) s else s);
          (h, s2) = window_setInterval s1
      in s2\<lparr> autoCycleInterval := Some h \<rparr>)"

text \<open>
  \<open>startCarousel\<close> stores the current time (\<open>new Date().getTime()\<close>, here the argument
  \<open>now\<close>) and starts the timer.
\<close>

definition startCarousel :: "int \<Rightarrow> layout_state \<Rightarrow> layout_state" where
  "startCarousel now s = startInterval (s\<lparr> autoCycleStartTime := Some now \<rparr>)"

text \<open>
  \<open>timeElapsed = new Date().getTime() - autoCycleStartTime\<close> is \<open>NaN\<close> (\<open>None\<close>) while
  \<open>autoCycleStartTime\<close> is \<open>undefined\<close>, and \<open>NaN > AUTO_ROTATE_MAX_DURATION\<close> is false.
\<close>

definition timeElapsed :: "int \<Rightarrow> layout_state \<Rightarrow> int option" where
  "timeElapsed now s = (case autoCycleStartTime s of None \<Rightarrow> None | Some t0 \<Rightarrow> Some (now - t0))"

definition over_cap :: "int \<Rightarrow> layout_state \<Rightarrow> bool" where
  "over_cap now s =
     (case timeElapsed now s of None \<Rightarrow> False | Some d \<Rightarrow> d > AUTO_ROTATE_MAX_DURATION)"

text \<open>
  \<^verbatim>\<open>
  $scope.nextItem = function() {
    var timeElapsed = (new Date().getTime() - autoCycleStartTime);
    if (timeElapsed > AUTO_ROTATE_MAX_DURATION) {
      clearInterval(autoCycleInterval);
      $scope.currentItemIndex = 0;
      $scope.$apply();
      return;
    }
    if ($scope.currentItemIndex + 1 < $scope.itemsLimit) {
      $scope.currentItemIndex++;
    } else {
      $scope.currentItemIndex = 0;
    }
    $scope.$apply();
  };\<close>
\<close>

definition nextItem :: "int \<Rightarrow> layout_state \<Rightarrow> layout_state" where
  "nextItem now s =
     (if over_cap now s
      then (clearInterval (autoCycleInterval s) s)\<lparr> currentItemIndex := 0 \<rparr>
      else if currentItemIndex s + 1 < itemsLimit s
           then s\<lparr> currentItemIndex := currentItemIndex s + 1 \<rparr>
           else s\<lparr> currentItemIndex := 0 \<rparr>)"

text \<open>
  \<open>showLayout\<close> queues the removal of the \<open>hide\<close> class; \<open>layoutInit\<close> starts the carousel
  when there is more than one item, shows the layout and queues the animation build.
\<close>

definition showLayout :: "layout_state \<Rightarrow> layout_state" where
  "showLayout s = s\<lparr> timeouts := timeouts s @ [(RemoveHideClass, timeout_ms MEDIUM)] \<rparr>"

definition layoutInit :: "int \<Rightarrow> layout_state \<Rightarrow> layout_state" where
  "layoutInit now s =
     (let s1 = (if itemsLimit s > 1 then startCarousel now s else s);
          s2 = showLayout s1
      in s2\<lparr> timeouts := timeouts s2 @ [(BuildAnimation, timeout_ms MEDIUM)] \<rparr>)"

text \<open>
  The \<open>setItem\<close> directive, on \<open>mouseover\<close> of the item whose repeater index is \<open>$index\<close>:
  \<^verbatim>\<open>
  scope.$parent.currentItemIndex = scope.$index;
  scope.startInterval();
  scope.$parent.$apply();\<close>
\<close>

definition setItem :: "int \<Rightarrow> layout_state \<Rightarrow> layout_state" where
  "setItem index s = startInterval (s\<lparr> currentItemIndex := index \<rparr>)"

text \<open>
  What can happen to the carousel after the controller has run: the scope's methods are
  called (with the clock's reading where they read it), the pointer enters an item, or the
  browser fires a repeating timer, which calls \<open>nextItem\<close> if that timer is still
  registered and does nothing otherwise.
\<close>

datatype event =
    LayoutInit int
  | StartCarousel int
  | StartInterval
  | MouseOver int
  | IntervalFires nat int

fun step :: "event \<Rightarrow> layout_state \<Rightarrow> layout_state" where
  "step (LayoutInit now) s = layoutInit now s"
| "step (StartCarousel now) s = startCarousel now s"
| "step StartInterval s = startInterval s"
| "step (MouseOver index) s = setItem index s"
| "step (IntervalFires h now) s = (if h \<in> set (intervals s) then nextItem now s else s)"

fun run :: "event list \<Rightarrow> layout_state \<Rightarrow> layout_state" where
  "run [] s = s"
| "run (e # es) s = run es (step e s)"

text \<open>
  A hover is in range when the index of the hovered item is one of
  \<open>0, \<dots>, itemsLimit - 1\<close> at the moment of the hover.
\<close>

fun hover_in_range :: "layout_state \<Rightarrow> event \<Rightarrow> bool" where
  "hover_in_range s (MouseOver index) = (0 \<le> index \<and> index < itemsLimit s)"
| "hover_in_range s _ = True"

fun hovers_in_range :: "layout_state \<Rightarrow> event list \<Rightarrow> bool" where
  "hovers_in_range s [] = True"
| "hovers_in_range s (e # es) = (hover_in_range s e \<and> hovers_in_range (step e s) es)"

definition index_in_range :: "layout_state \<Rightarrow> bool" where
  "index_in_range s = (0 \<le> currentItemIndex s \<and> currentItemIndex s < itemsLimit s)"

text \<open>
  The timer discipline: handles are positive and below the next one to be handed out, and
  the only timer that can be registered is the one \<open>autoCycleInterval\<close> names.
\<close>

definition timers_ok :: "layout_state \<Rightarrow> bool" where
  "timers_ok s =
     (0 < next_handle s \<and>
      (case autoCycleInterval s of
         None \<Rightarrow> intervals s = []
       | Some h \<Rightarrow> 0 < h \<and> h < next_handle s \<and> (intervals s = [] \<or> intervals s = [h])))"


section \<open>The font loader\<close>

text \<open>
  \<open>loadFonts\<close> hides the ad container and asks the Web Font Loader for the font, unless
  the browser is Internet Explorer, where it queues the announcement itself. The
  announcement is the closure both branches pass to \<open>setTimeout\<close>:
  \<^verbatim>\<open>
  function() {
    scope.$broadcast('fontsLoaded');
    el.style.visibility = 'visible';
    return true;
  }\<close>
  The only handler the call to \<open>WebFont.load\<close> registers is \<open>active\<close>, which queues that
  closure after \<open>timeout.SHORT\<close>; the configuration has no \<open>inactive\<close> handler.
\<close>

datatype timer_callback = Announce

datatype webfont_handler = AnnounceAfter nat

record webfont_config =
  families :: "string list"
  wf_timeout :: nat
  active :: "webfont_handler option"
  inactive :: "webfont_handler option"

record font_state =
  visibility :: string
  broadcasts :: "string list"
  pending :: "(timer_callback \<times> nat) list"
  webfont_request :: "webfont_config option"

definition page_loaded :: font_state where
  "page_loaded = \<lparr> visibility = [], broadcasts = [], pending = [], webfont_request = None \<rparr>"

definition setTimeout :: "timer_callback \<Rightarrow> nat \<Rightarrow> font_state \<Rightarrow> font_state" where
  "setTimeout cb delay st = st\<lparr> pending := pending st @ [(cb, delay)] \<rparr>"

definition loadFonts_config :: webfont_config where
  "loadFonts_config =
     \<lparr> families = [''Roboto+Condensed:400,300,700:cyrillic-ext,greek-ext,vietnamese,latin-ext''],
       wf_timeout = timeout_ms EXTRA_LONG,
       active = Some (AnnounceAfter (timeout_ms SHORT)),
       inactive = None \<rparr>"

text \<open>
  \<^verbatim>\<open>
  function loadFonts(scope) {
    var el = document.getElementById('ad-container');
    el.style.visibility = 'hidden';
    if (!helpers.isIE()) {
      WebFont.load({ google: {families: [...]}, timeout: timeout.EXTRA_LONG,
                     active: function() { setTimeout(<announce>, timeout.SHORT); } });
    } else {
      setTimeout(<announce>, timeout.MEDIUM);
    }
  }\<close>
\<close>

definition loadFonts :: "bool \<Rightarrow> font_state \<Rightarrow> font_state" where
  "loadFonts isIE st =
     (let st1 = st\<lparr> visibility := ''hidden'' \<rparr>
      in if \<not> isIE then st1\<lparr> webfont_request := Some loadFonts_config \<rparr>
         else setTimeout Announce (timeout_ms MEDIUM) st1)"

fun run_timer :: "timer_callback \<Rightarrow> font_state \<Rightarrow> font_state" where
  "run_timer Announce st =
     st\<lparr> broadcasts := broadcasts st @ [FONTS_LOADED], visibility := ''visible'' \<rparr>"

fun run_handler :: "webfont_handler \<Rightarrow> font_state \<Rightarrow> font_state" where
  "run_handler (AnnounceAfter delay) st = setTimeout Announce delay st"

text \<open>
  The Web Font Loader ends a request in one of two ways: the fonts have rendered, and it
  calls the \<open>active\<close> handler; or none has loaded when \<open>timeout\<close> milliseconds have
  passed, and it calls the \<open>inactive\<close> handler. A handler the configuration does not
  have is not called.
\<close>

datatype font_outcome = FontsRendered | FontsTimedOut

definition webfont_settles :: "font_outcome \<Rightarrow> font_state \<Rightarrow> font_state" where
  "webfont_settles outcome st =
     (case webfont_request st of
        None \<Rightarrow> st
      | Some cfg \<Rightarrow>
          (case (case outcome of FontsRendered \<Rightarrow> active cfg | FontsTimedOut \<Rightarrow> inactive cfg) of
             None \<Rightarrow> st
           | Some handler \<Rightarrow> run_handler handler st))"

text \<open>Every queued timeout fires, in the order queued.\<close>

definition timeouts_fire :: "font_state \<Rightarrow> font_state" where
  "timeouts_fire st =
     foldl (\<lambda>s (cb, delay). run_timer cb s) (st\<lparr> pending := [] \<rparr>) (pending st)"

text \<open>
  One whole execution of the font loader: \<open>loadFonts\<close> runs on the loaded page, the font
  request (if one was made) ends with the given outcome, and all timeouts fire. Nothing
  is left to run in the state this returns.
\<close>

definition font_loader_run :: "bool \<Rightarrow> font_outcome \<Rightarrow> font_state" where
  "font_loader_run isIE outcome = timeouts_fire (webfont_settles outcome (loadFonts isIE page_loaded))"


section \<open>The animation builder\<close>

text \<open>
  \<open>buildAnimation\<close> sets the default perspective, makes the product images transparent
  and fills a timeline according to \<open>scope.layoutType\<close>. A tween is recorded as the call
  that adds it: the selector of its targets, its duration in seconds, its variables, the
  stagger (for the staggered calls) and the position argument when there is one.
  \<open>MIN_TYPE\<close> is \<open>LayoutTypes.MIN\<close>; \<open>UNLISTED\<close> stands for a layout type the \<open>switch\<close>
  has no case for.
\<close>

datatype layout_type = SQUARE | VERTICAL | HORIZONTAL | MIN_TYPE | UNLISTED

datatype tween_value = Num rat | Str string | Ease string

datatype tween =
    From string rat "(string \<times> tween_value) list" "string option"
  | StaggerFrom string rat "(string \<times> tween_value) list" rat "string option"
  | StaggerTo string rat "(string \<times> tween_value) list" rat "string option"

record animation =
  defaultTransformPerspective :: nat
  img_opacity :: nat
  timeline :: "tween list"

definition fade_images_in :: tween where
  "fade_images_in =
     StaggerTo ''.img-holder img'' (135/100) [(''opacity'', Num 1)] (25/100) (Some ''-=1.05'')"

definition fade_logo_in :: tween where
  "fade_logo_in =
     From ''.logo, .disclaimer-panel'' (5/10) [(''alpha'', Num 0)] (Some ''-=.05'')"

text \<open>The body the \<open>case\<close> labels \<open>HORIZONTAL\<close> and \<open>MIN\<close> share.\<close>

definition horizontal_sequence :: "tween list" where
  "horizontal_sequence =
     [From ''#items-segment'' (75/100)
        [(''width'', Num 0), (''marginLeft'', Str ''100%''),
         (''ease'', Ease ''Power3.easeInOut''), (''delay'', Num (5/10))] None,
      fade_logo_in,
      StaggerFrom ''.item-panel'' (5/10)
        [(''rotationY'', Num 90), (''transformOrigin'', Str ''0% 50%'')] (4/10)
        (Some ''-=.4''),
      fade_images_in]"

fun layout_sequence :: "layout_type \<Rightarrow> tween list" where
  "layout_sequence SQUARE =
     [From ''#items-segment'' (75/100)
        [(''width'', Num 0), (''marginLeft'', Str ''100%''),
         (''ease'', Ease ''Power3.easeInOut''), (''delay'', Num (5/10))] None,
      StaggerFrom ''.item-panel'' (5/10)
        [(''rotationY'', Num 90), (''transformOrigin'', Str ''0% 50%'')] (4/10) None,
      fade_images_in]"
| "layout_sequence VERTICAL =
     [From ''#items-segment'' 1
        [(''height'', Num 0), (''y'', Str ''-=30''),
         (''ease'', Ease ''Power3.easeInOut''), (''delay'', Num (5/10))] None,
      fade_logo_in,
      StaggerFrom ''.item-panel'' (5/10)
        [(''rotationX'', Num (-90)), (''transformOrigin'', Str ''50% 0%'')] (4/10)
        (Some ''-=.4''),
      fade_images_in]"
| "layout_sequence HORIZONTAL = horizontal_sequence"
| "layout_sequence MIN_TYPE = horizontal_sequence"
| "layout_sequence UNLISTED = []"

definition buildAnimation :: "layout_type \<Rightarrow> animation" where
  "buildAnimation layoutType =
     \<lparr> defaultTransformPerspective = 200, img_opacity = 0,
       timeline = layout_sequence layoutType @
         [StaggerFrom ''.star'' (25/100) [(''alpha'', Num 0)] (75/1000) (Some ''-=1.5'')] \<rparr>"


section \<open>The layout specification\<close>

text \<open>
  The second part of the file declares the data the layout takes, one call of
  \<open>utils.defineMeta\<close>, \<open>utils.defineAttribute\<close> or \<open>utils.defineOccurrences\<close> after the
  other. The calls are recorded in the order of the source.
\<close>

datatype spec_decl =
    DefineMeta string string
  | DefineAttribute string string bool
  | DefineOccurrences string nat nat

definition layout_spec :: "spec_decl list" where
  "layout_spec =
     [DefineMeta ''version'' ''1.0'',
      DefineAttribute ''Headline'' ''productClickOnly'' True,
      DefineAttribute ''Product'' ''name'' True,
      DefineAttribute ''Product'' ''url'' True,
      DefineAttribute ''Design'' ''imageUrl'' True,
      DefineAttribute ''Headline'' ''disclaimer'' False,
      DefineAttribute ''Headline'' ''cta'' False,
      DefineAttribute ''Headline'' ''pricePrefix'' False,
      DefineAttribute ''Product'' ''subTitle'' False,
      DefineAttribute ''Product'' ''rating'' False,
      DefineAttribute ''Product'' ''price'' False,
      DefineAttribute ''Design'' ''borderColor'' False,
      DefineAttribute ''Design'' ''bgColor'' False,
      DefineAttribute ''Design'' ''bgColorAlt'' False,
      DefineAttribute ''Design'' ''txtColorProduct'' False,
      DefineAttribute ''Design'' ''txtColorSubTitle'' False,
      DefineAttribute ''Design'' ''txtColorPricePrefix'' False,
      DefineAttribute ''Design'' ''txtColorCta'' False,
      DefineAttribute ''Design'' ''txtColorPrice'' False,
      DefineAttribute ''Design'' ''btnColor'' False,
      DefineAttribute ''Design'' ''btnRollColor'' False,
      DefineAttribute ''Design'' ''txtColorDisc'' False,
      DefineAttribute ''Design'' ''cornerStyle'' False,
      DefineAttribute ''Design'' ''logoImageUrl'' False,
      DefineAttribute ''Design'' ''logoPadding'' False,
      DefineOccurrences ''Headline'' 1 1,
      DefineOccurrences ''Design'' 1 1,
      DefineOccurrences ''Product'' 3 3]"

fun occurrences :: "spec_decl list \<Rightarrow> (string \<times> nat \<times> nat) list" where
  "occurrences [] = []"
| "occurrences (DefineOccurrences kind lo hi # ds) = (kind, lo, hi) # occurrences ds"
| "occurrences (_ # ds) = occurrences ds"

text \<open>
  Modelled from the spec: \<open>utils.defineOccurrences\<close> and the schema layer that reads its
  declarations are not part of this file. By the spec the second and third arguments are
  the least and the greatest number of entities of the kind, and a payload with fewer or
  more is rejected. A payload is seen here as the list of the kinds of its entities.
\<close>

definition payload_valid :: "spec_decl list \<Rightarrow> string list \<Rightarrow> bool" where
  "payload_valid decls kinds =
     list_all (\<lambda>(kind, lo, hi). lo \<le> count_list kinds kind \<and> count_list kinds kind \<le> hi)
       (occurrences decls)"


section \<open>JavaScript values\<close>

text \<open>
  The values the modelled code handles: \<open>undefined\<close>, \<open>null\<close>, numbers (integers and
  \<open>NaN\<close>) and strings. \<open>truthy\<close> is the conversion to a boolean that \<open>||\<close> and \<open>if\<close> apply.
\<close>

datatype js_value = JUndefined | JNull | JNaN | JNum int | JStr string

fun truthy :: "js_value \<Rightarrow> bool" where
  "truthy JUndefined = False"
| "truthy JNull = False"
| "truthy JNaN = False"
| "truthy (JNum n) = (n \<noteq> 0)"
| "truthy (JStr s) = (s \<noteq> [])"

text \<open>\<open>a || b\<close>: the left operand when it is truthy, the right one otherwise.\<close>

definition js_or :: "js_value \<Rightarrow> js_value \<Rightarrow> js_value" where
  "js_or a b = (if truthy a then a else b)"

text \<open>
  The conversion of a string to a number (\<open>StringToNumber\<close>). A string is a list of code
  units below 256. Leading and trailing white space is dropped; what is left is empty
  (the number 0), or a decimal literal with an optional sign (\<open>Infinity\<close>, or digits
  with an optional fraction and an optional exponent), or an unsigned hexadecimal, octal
  or binary integer literal (\<open>0x\<close>, \<open>0o\<close>, \<open>0b\<close>); anything else is \<open>NaN\<close>. The number
  a literal writes is kept exactly, as a rational: it is not rounded to a double.
\<close>

datatype js_number = NaN | Finite rat | PosInfinity | NegInfinity

definition is_space :: "char \<Rightarrow> bool" where
  "is_space c = ((of_char c :: nat) \<in> {9, 10, 11, 12, 13, 32, 160})"

definition is_digit :: "char \<Rightarrow> bool" where
  "is_digit c = (48 \<le> (of_char c :: nat) \<and> (of_char c :: nat) \<le> 57)"

definition hex_val :: "char \<Rightarrow> nat option" where
  "hex_val c =
     (let n = (of_char c :: nat)
      in if 48 \<le> n \<and> n \<le> 57 then Some (n - 48)
         else if 97 \<le> n \<and> n \<le> 102 then Some (n - 87)
         else if 65 \<le> n \<and> n \<le> 70 then Some (n - 55)
         else None)"

definition trim :: "string \<Rightarrow> string" where
  "trim s = rev (dropWhile is_space (rev (dropWhile is_space s)))"

text \<open>
  The value of a string of digits in a base; \<open>None\<close> if it is empty or has a character
  that is no digit of the base.
\<close>

fun digits_from :: "nat \<Rightarrow> nat \<Rightarrow> string \<Rightarrow> nat option" where
  "digits_from base acc [] = Some acc"
| "digits_from base acc (c # cs) =
     (case hex_val c of
        None \<Rightarrow> None
      | Some d \<Rightarrow> if d < base then digits_from base (base * acc + d) cs else None)"

definition digits_value :: "nat \<Rightarrow> string \<Rightarrow> nat option" where
  "digits_value base s = (if s = [] then None else digits_from base 0 s)"

text \<open>\<open>ExponentPart\<close>, if any: nothing (exponent 0), or \<open>e\<close> or \<open>E\<close> and a signed integer.\<close>

definition exponent_part :: "string \<Rightarrow> int option" where
  "exponent_part s =
     (case s of
        [] \<Rightarrow> Some 0
      | c # t \<Rightarrow>
          if c = CHR ''e'' \<or> c = CHR ''E'' then
            (case t of
               [] \<Rightarrow> None
             | d # u \<Rightarrow>
                 if d = CHR ''+'' then map_option int (digits_value 10 u)
                 else if d = CHR ''-'' then map_option (\<lambda>n. - int n) (digits_value 10 u)
                 else map_option int (digits_value 10 t))
          else None)"

definition scale :: "nat \<Rightarrow> int \<Rightarrow> rat" where
  "scale m e = (if 0 \<le> e then of_nat m * 10 ^ nat e else of_nat m / 10 ^ nat (- e))"

text \<open>
  \<open>StrUnsignedDecimalLiteral\<close>: \<open>Infinity\<close>, or digits, then possibly a point and digits,
  then possibly an exponent, with a digit before or after the point.
\<close>

definition unsigned_decimal :: "string \<Rightarrow> js_number" where
  "unsigned_decimal s =
     (if s = ''Infinity'' then PosInfinity
      else
        (let whole = takeWhile is_digit s;
             r1 = dropWhile is_digit s;
             point = (case r1 of [] \<Rightarrow> False | c # _ \<Rightarrow> c = CHR ''.'');
             fraction = (if point then takeWhile is_digit (tl r1) else []);
             r2 = (if point then dropWhile is_digit (tl r1) else r1)
         in case (digits_value 10 (whole @ fraction), exponent_part r2) of
              (Some m, Some e) \<Rightarrow> Finite (scale m (e - int (length fraction)))
            | _ \<Rightarrow> NaN))"

fun negated :: "js_number \<Rightarrow> js_number" where
  "negated NaN = NaN"
| "negated (Finite q) = Finite (- q)"
| "negated PosInfinity = NegInfinity"
| "negated NegInfinity = PosInfinity"

definition signed_decimal :: "string \<Rightarrow> js_number" where
  "signed_decimal s =
     (case s of
        [] \<Rightarrow> NaN
      | c # t \<Rightarrow>
          if c = CHR ''+'' then unsigned_decimal t
          else if c = CHR ''-'' then negated (unsigned_decimal t)
          else unsigned_decimal s)"

text \<open>The base of a \<open>NonDecimalIntegerLiteral\<close>, by the letter after the leading \<open>0\<close>.\<close>

definition literal_base :: "char \<Rightarrow> nat option" where
  "literal_base c =
     (if c = CHR ''x'' \<or> c = CHR ''X'' then Some 16
      else if c = CHR ''o'' \<or> c = CHR ''O'' then Some 8
      else if c = CHR ''b'' \<or> c = CHR ''B'' then Some 2
      else None)"

definition string_to_number :: "string \<Rightarrow> js_number" where
  "string_to_number s =
     (let t = trim s
      in case t of
           [] \<Rightarrow> Finite 0
         | [c] \<Rightarrow> signed_decimal t
         | c # d # ds \<Rightarrow>
             (case (if c = CHR ''0'' then literal_base d else None) of
                Some base \<Rightarrow>
                  (case digits_value base ds of None \<Rightarrow> NaN | Some n \<Rightarrow> Finite (of_nat n))
              | None \<Rightarrow> signed_decimal t))"

text \<open>\<open>ToNumber\<close>.\<close>

fun to_number :: "js_value \<Rightarrow> js_number" where
  "to_number JUndefined = NaN"
| "to_number JNull = Finite 0"
| "to_number JNaN = NaN"
| "to_number (JNum n) = Finite (of_int n)"
| "to_number (JStr s) = string_to_number s"

text \<open>The order of two numbers under \<open><\<close>; a comparison with \<open>NaN\<close> is false.\<close>

fun number_less :: "js_number \<Rightarrow> js_number \<Rightarrow> bool" where
  "number_less NaN y = False"
| "number_less x NaN = False"
| "number_less (Finite x) (Finite y) = (x < y)"
| "number_less (Finite x) PosInfinity = True"
| "number_less (Finite x) NegInfinity = False"
| "number_less PosInfinity y = False"
| "number_less NegInfinity NegInfinity = False"
| "number_less NegInfinity y = True"

text \<open>
  The order of two strings under \<open><\<close>: the code units are compared from the left, and a
  proper prefix is smaller.
\<close>

fun str_less :: "string \<Rightarrow> string \<Rightarrow> bool" where
  "str_less [] [] = False"
| "str_less [] (y # ys) = True"
| "str_less (x # xs) [] = False"
| "str_less (x # xs) (y # ys) =
     (if (of_char x :: nat) < of_char y then True
      else if (of_char y :: nat) < of_char x then False
      else str_less xs ys)"

text \<open>
  \<open>a < b\<close>: two strings are compared as strings; otherwise both operands are converted
  to numbers and compared as numbers.
\<close>

fun js_less :: "js_value \<Rightarrow> js_value \<Rightarrow> bool" where
  "js_less (JStr a) (JStr b) = str_less a b"
| "js_less a b = number_less (to_number a) (to_number b)"

text \<open>The decimal numeral of a number, and \<open>ToString\<close>, as \<open>value + 'px'\<close> applies it.\<close>

fun show_nat :: "nat \<Rightarrow> string" where
  "show_nat n =
     (if n < 10 then [''0123456789'' ! n]
      else show_nat (n div 10) @ [''0123456789'' ! (n mod 10)])"

declare show_nat.simps [simp del]

definition show_int :: "int \<Rightarrow> string" where
  "show_int i = (if i < 0 then ''-'' @ show_nat (nat (- i)) else show_nat (nat i))"

fun to_string :: "js_value \<Rightarrow> string" where
  "to_string JUndefined = ''undefined''"
| "to_string JNull = ''null''"
| "to_string JNaN = ''NaN''"
| "to_string (JNum n) = show_int n"
| "to_string (JStr s) = s"


section \<open>Products and prices\<close>

text \<open>
  A product as the payload gives it; a field the payload does not have is \<open>undefined\<close>.
  After \<open>helpers.LayoutController\<close> has put the products on the scope, the controller
  runs
  \<^verbatim>\<open>
  angular.forEach($scope.products, function(product) {
    product.price = product.salePrice || product.price;
  });\<close>
\<close>

record product =
  name :: js_value
  url :: js_value
  imageUrl :: js_value
  subTitle :: js_value
  rating :: js_value
  price :: js_value
  salePrice :: js_value

definition show_sale_price :: "product \<Rightarrow> product" where
  "show_sale_price p = p\<lparr> price := js_or (salePrice p) (price p) \<rparr>"

definition LayoutController_products :: "product list \<Rightarrow> product list" where
  "LayoutController_products ps = map show_sale_price ps"


section \<open>Preloading the images\<close>

text \<open>
  \<open>initPreloading\<close> reads the first \<open>Design\<close> and all \<open>Product\<close> entities that
  \<open>utils.parse\<close> finds in the payload and hands their image URLs to \<open>utils.preloader\<close>.
  Neither \<open>utils.parse\<close> nor the preloader is part of this file: the payload is taken as
  the two lists \<open>utils.parse\<close> returns, and the preloader as the list of the calls made
  on it. Reading a property of \<open>undefined\<close> (no \<open>Design\<close> in the payload) throws a
  \<open>TypeError\<close>; the calls made before stay made.
  \<^verbatim>\<open>
  window.initPreloading = function(dynamicData) {
    var data = dynamicData.google_template_data.adData[0];
    var design = utils.parse(data, 'Design')[0];
    var prods = utils.parse(data, 'Product').slice(0);
    var preloader = utils.preloader;
    for (var i = 0; i < prods.length; i++) {
      preloader.addImage(prods[i].imageUrl);
    }
    preloader.addImage(design.logoImageUrl);
    preloader.addImage(design.bgImageUrl);
    return preloader;
  };\<close>
\<close>

record design =
  logoImageUrl :: js_value
  bgImageUrl :: js_value

record ad_data =
  designs :: "design list"
  products :: "product list"

datatype preloader_call =
    AddImage js_value
  | AddCompletionListener
  | Start
  | GetLoadedImages

datatype js_error = TypeError

definition initPreloading ::
    "ad_data \<Rightarrow> preloader_call list \<Rightarrow> preloader_call list \<times> js_error option" where
  "initPreloading d calls =
     (let calls1 = calls @ map (\<lambda>p. AddImage (imageUrl p)) (products d)
      in case designs d of
           [] \<Rightarrow> (calls1, Some TypeError)
         | dsgn # _ \<Rightarrow>
             (calls1 @ [AddImage (logoImageUrl dsgn), AddImage (bgImageUrl dsgn)], None))"

text \<open>
  The page, as far as \<open>window.onAdData\<close> is concerned: the calls made on the preloader,
  the payloads of the completion listeners registered so far (each listener is the same
  closure over its own \<open>data\<close>), the payloads \<open>utils.onAdData\<close> has been called with
  (the controller's data handling), and an uncaught error if one was thrown.
  \<^verbatim>\<open>
  window.onAdData = function(data, util) {
    var preloader = initPreloading(data);
    preloader.addCompletionListener(function() {
      preloader.getLoadedImages();
      utils.onAdData(data, util);
    });
    preloader.start();
  };\<close>
\<close>

record ad_page =
  preloader_calls :: "preloader_call list"
  listeners :: "ad_data list"
  handled :: "ad_data list"
  uncaught :: "js_error option"

definition page_start :: ad_page where
  "page_start = \<lparr> preloader_calls = [], listeners = [], handled = [], uncaught = None \<rparr>"

definition onAdData :: "ad_data \<Rightarrow> ad_page \<Rightarrow> ad_page" where
  "onAdData d pg =
     (case initPreloading d (preloader_calls pg) of
        (calls, Some err) \<Rightarrow> pg\<lparr> preloader_calls := calls, uncaught := Some err \<rparr>
      | (calls, None) \<Rightarrow>
          pg\<lparr> preloader_calls := calls @ [AddCompletionListener, Start],
              listeners := listeners pg @ [d] \<rparr>)"

text \<open>
  When the preloader reports completion it calls the registered listeners in turn; each
  asks for the loaded images and passes its payload on to \<open>utils.onAdData\<close>.
\<close>

definition preloader_completes :: "ad_page \<Rightarrow> ad_page" where
  "preloader_completes pg =
     pg\<lparr> preloader_calls := preloader_calls pg @ map (\<lambda>d. GetLoadedImages) (listeners pg),
         handled := handled pg @ listeners pg \<rparr>"

datatype page_event = AdData ad_data | PreloaderCompletes

fun page_step :: "page_event \<Rightarrow> ad_page \<Rightarrow> ad_page" where
  "page_step (AdData d) pg = onAdData d pg"
| "page_step PreloaderCompletes pg = preloader_completes pg"

fun page_run :: "page_event list \<Rightarrow> ad_page \<Rightarrow> ad_page" where
  "page_run [] pg = pg"
| "page_run (e # es) pg = page_run es (page_step e pg)"


section \<open>The text-fit normaliser\<close>

text \<open>
  \<open>uniformSize(classToUniform)\<close> works on the elements the selector matches. Of an
  element the model keeps its \<open>span\<close> descendants in document order and the font size
  \<open>css\<close> has set on it; of a span, whether it has an \<open>offsetParent\<close> (it is visible), the
  \<open>minfontsize\<close> attribute of its parent element (\<open>None\<close> when the attribute is missing and
  \<open>getAttribute\<close> returns \<open>null\<close>), the number \<open>parseInt\<close> makes of its computed
  \<open>font-size\<close> (\<open>None\<close> for \<open>NaN\<close>), and the font size \<open>css\<close> has set on it. The matched
  elements are taken not to lie inside one another, so that the spans
  \<open>classToUniform + ' span'\<close> selects are those of the first element, then those of the
  second, and so on.
\<close>

record span =
  offsetParent :: bool
  minfontsize :: "string option"
  font_size :: "int option"
  span_style :: "string option"

record text_element =
  spans :: "span list"
  el_style :: "string option"

text \<open>
  The body of the first loop, for one span and the smallest size so far:
  \<^verbatim>\<open>
  if (textFitElement.offsetParent) {
    var elementMinimumFontSize = textFitElement.parentElement.getAttribute('minfontsize');
    var elementFontSize = parseInt(helpers.getStyleProperty(textFitElement, 'font-size'));
    if (elementFontSize < elementMinimumFontSize) {
      elementFontSize = elementMinimumFontSize;
    }
    if (elementFontSize < smallestFontSize) {
      smallestFontSize = elementFontSize;
    }
  }\<close>
  The attribute is a string and is assigned as it is, not converted.
\<close>

definition smaller_font :: "js_value \<Rightarrow> span \<Rightarrow> js_value" where
  "smaller_font smallestFontSize textFitElement =
     (if offsetParent textFitElement then
        (let elementMinimumFontSize =
               (case minfontsize textFitElement of None \<Rightarrow> JNull | Some a \<Rightarrow> JStr a);
             parsed = (case font_size textFitElement of None \<Rightarrow> JNaN | Some n \<Rightarrow> JNum n);
             elementFontSize =
               (if js_less parsed elementMinimumFontSize then elementMinimumFontSize else parsed)
         in if js_less elementFontSize smallestFontSize then elementFontSize
            else smallestFontSize)
      else smallestFontSize)"

definition smallestFontSize :: "text_element list \<Rightarrow> js_value" where
  "smallestFontSize els = foldl smaller_font (JNum 1000) (concat (map spans els))"

text \<open>
  The second loop sets \<open>smallestFontSize + 'px'\<close> on each element and on its first span
  (\<open>querySelector('span')\<close>), if it has one.
\<close>

definition set_font_size :: "string \<Rightarrow> text_element \<Rightarrow> text_element" where
  "set_font_size v el =
     el\<lparr> el_style := Some v,
         spans := (case spans el of [] \<Rightarrow> [] | sp # sps \<Rightarrow> sp\<lparr> span_style := Some v \<rparr> # sps) \<rparr>"

definition uniformSize :: "text_element list \<Rightarrow> text_element list" where
  "uniformSize els = map (set_font_size (to_string (smallestFontSize els) @ ''px'')) els"

text \<open>
  What the specification says the size is: the least, over the visible spans, of the
  rendered size raised to the configured minimum. \<open>clamped_size\<close> is that raised size
  (a missing attribute, or one that is no finite number, is no minimum),
  \<open>claimed_minimum\<close> the least of them, as the specification words it, and
  \<open>capped_minimum\<close> the least of them and of 1000.
\<close>

definition visible_spans :: "text_element list \<Rightarrow> span list" where
  "visible_spans els = filter offsetParent (concat (map spans els))"

definition attribute_value :: "string option \<Rightarrow> rat" where
  "attribute_value a =
     (case a of None \<Rightarrow> 0
      | Some s \<Rightarrow> (case string_to_number s of Finite q \<Rightarrow> q | _ \<Rightarrow> 0))"

definition clamped_size :: "span \<Rightarrow> rat" where
  "clamped_size sp =
     max (case font_size sp of None \<Rightarrow> 0 | Some n \<Rightarrow> of_int n)
         (attribute_value (minfontsize sp))"

definition claimed_minimum :: "text_element list \<Rightarrow> rat" where
  "claimed_minimum els = Min (set (map clamped_size (visible_spans els)))"

definition capped_minimum :: "text_element list \<Rightarrow> rat" where
  "capped_minimum els = Min (set (1000 # map clamped_size (visible_spans els)))"

text \<open>
  A group is numeric when, for its visible spans, the rendered size parses to a number,
  each \<open>minfontsize\<close> attribute present converts to a finite number, and any two
  attributes compare as strings the way their numbers compare.
\<close>

definition finite_attribute :: "string option \<Rightarrow> bool" where
  "finite_attribute a =
     (case a of None \<Rightarrow> True
      | Some s \<Rightarrow> (case string_to_number s of Finite q \<Rightarrow> True | _ \<Rightarrow> False))"

definition same_order :: "string option \<Rightarrow> string option \<Rightarrow> bool" where
  "same_order a b =
     (case (a, b) of
        (Some s, Some t) \<Rightarrow> str_less s t = (attribute_value a < attribute_value b)
      | _ \<Rightarrow> True)"

definition numeric_span :: "span list \<Rightarrow> span \<Rightarrow> bool" where
  "numeric_span sps sp =
     ((case font_size sp of None \<Rightarrow> False | Some n \<Rightarrow> True) \<and>
      finite_attribute (minfontsize sp) \<and>
      list_all (\<lambda>sp'. same_order (minfontsize sp) (minfontsize sp') \<and>
                      same_order (minfontsize sp') (minfontsize sp)) sps)"

definition numeric_group :: "text_element list \<Rightarrow> bool" where
  "numeric_group els = list_all (numeric_span (visible_spans els)) (visible_spans els)"

text \<open>
  For the proofs: the number a value stands for, and the values the first loop can hold
  in a numeric group, which are \<open>null\<close>, a number, or the attribute of one of the spans.
\<close>

definition numeric_value :: "js_value \<Rightarrow> rat" where
  "numeric_value v = (case to_number v of Finite q \<Rightarrow> q | _ \<Rightarrow> 0)"

fun tracked :: "span list \<Rightarrow> js_value \<Rightarrow> bool" where
  "tracked sps (JNum n) = True"
| "tracked sps JNull = True"
| "tracked sps (JStr a) = (Some a \<in> set (map minfontsize sps))"
| "tracked sps _ = False"

text \<open>Four groups to run the normaliser on.\<close>

definition fitted_group :: "text_element list" where
  "fitted_group =
     [\<lparr> spans = [\<lparr> offsetParent = True, minfontsize = Some ''10'',
                   font_size = Some 8, span_style = None \<rparr>], el_style = None \<rparr>,
      \<lparr> spans = [\<lparr> offsetParent = True, minfontsize = Some ''12'',
                   font_size = Some 14, span_style = None \<rparr>,
                 \<lparr> offsetParent = False, minfontsize = Some ''12'',
                   font_size = Some 5, span_style = None \<rparr>], el_style = None \<rparr>]"

definition fraction_group :: "text_element list" where
  "fraction_group =
     [\<lparr> spans = [\<lparr> offsetParent = True, minfontsize = Some ''12.5'',
                   font_size = Some 8, span_style = None \<rparr>], el_style = None \<rparr>]"

definition huge_group :: "text_element list" where
  "huge_group =
     [\<lparr> spans = [\<lparr> offsetParent = True, minfontsize = None,
                   font_size = Some 1200, span_style = None \<rparr>], el_style = None \<rparr>]"

definition mixed_length_group :: "text_element list" where
  "mixed_length_group =
     [\<lparr> spans = [\<lparr> offsetParent = True, minfontsize = Some ''9'',
                   font_size = Some 5, span_style = None \<rparr>], el_style = None \<rparr>,
      \<lparr> spans = [\<lparr> offsetParent = True, minfontsize = Some ''10'',
                   font_size = Some 4, span_style = None \<rparr>], el_style = None \<rparr>]"


section \<open>Properties of the carousel\<close>

lemma timers_ok_init: "timers_ok LayoutController_init"
  by (simp add: timers_ok_def LayoutController_init_def)

lemma startInterval_intervals:
  assumes "timers_ok s"
  shows "intervals (startInterval s) = [next_handle s]"
    and "autoCycleInterval (startInterval s) = Some (next_handle s)"
    and "next_handle (startInterval s) = Suc (next_handle s)"
  using assms
  by (auto simp: timers_ok_def startInterval_def window_setInterval_def Let_def
           split: option.splits)

lemma timers_ok_startInterval:
  assumes "timers_ok s"
  shows "timers_ok (startInterval s)"
proof -
  have "0 < next_handle s"
    using assms by (simp add: timers_ok_def)
  then show ?thesis
    unfolding timers_ok_def [of "startInterval s"]
    by (simp add: startInterval_intervals [OF assms])
qed

lemma timers_ok_index [simp]: "timers_ok (s\<lparr> currentItemIndex := i \<rparr>) = timers_ok s"
  by (simp add: timers_ok_def split: option.splits)

lemma timers_ok_start_time [simp]: "timers_ok (s\<lparr> autoCycleStartTime := t \<rparr>) = timers_ok s"
  by (simp add: timers_ok_def split: option.splits)

lemma timers_ok_timeouts [simp]: "timers_ok (s\<lparr> timeouts := t \<rparr>) = timers_ok s"
  by (simp add: timers_ok_def split: option.splits)

lemma timers_ok_clear: "timers_ok s \<Longrightarrow> timers_ok (clearInterval (autoCycleInterval s) s)"
  by (auto simp: timers_ok_def split: option.splits)


lemma timers_ok_nextItem: "timers_ok s \<Longrightarrow> timers_ok (nextItem now s)"
  by (simp add: nextItem_def timers_ok_clear)

lemma timers_ok_step: "timers_ok s \<Longrightarrow> timers_ok (step e s)"
  by (cases e)
     (simp_all add: layoutInit_def showLayout_def startCarousel_def setItem_def Let_def
        timers_ok_startInterval timers_ok_nextItem)

lemma timers_ok_run: "timers_ok s \<Longrightarrow> timers_ok (run es s)"
  by (induction es arbitrary: s) (simp_all add: timers_ok_step)

lemma timers_ok_reachable: "timers_ok (run es LayoutController_init)"
  by (simp add: timers_ok_run timers_ok_init)

lemma timers_ok_length: "timers_ok s \<Longrightarrow> length (intervals s) \<le> 1"
  by (auto simp: timers_ok_def split: option.splits)

text \<open>
  Claim C10. At most one auto-cycle timer is registered at any moment: after any sequence
  of events that follows the controller's initialisation the browser holds at most one
  repeating timer, and \<open>startInterval\<close> in such a state leaves exactly one, the freshly
  registered one, whose handle it stores in \<open>autoCycleInterval\<close>; the timer registered
  before, if any, is gone.
\<close>

theorem C10_single_interval:
  "length (intervals (run es LayoutController_init)) \<le> 1 \<and>
   intervals (startInterval (run es LayoutController_init))
     = [next_handle (run es LayoutController_init)] \<and>
   autoCycleInterval (startInterval (run es LayoutController_init))
     = Some (next_handle (run es LayoutController_init)) \<and>
   length (intervals (run (es @ [MouseOver index]) LayoutController_init)) \<le> 1"
proof -
  have ok: "timers_ok (run es LayoutController_init)"
    by (rule timers_ok_reachable)
  have ok': "timers_ok (run (es @ [MouseOver index]) LayoutController_init)"
    by (rule timers_ok_reachable)
  show ?thesis
    using timers_ok_length [OF ok] timers_ok_length [OF ok'] startInterval_intervals [OF ok]
    by simp
qed


lemma clearInterval_scope [simp]:
  "currentItemIndex (clearInterval v s) = currentItemIndex s"
  "itemsLimit (clearInterval v s) = itemsLimit s"
  "autoCycleStartTime (clearInterval v s) = autoCycleStartTime s"
  "autoCycleInterval (clearInterval v s) = autoCycleInterval s"
  "next_handle (clearInterval v s) = next_handle s"
  by (cases v; simp)+

lemma startInterval_scope [simp]:
  "currentItemIndex (startInterval s) = currentItemIndex s"
  "itemsLimit (startInterval s) = itemsLimit s"
  "autoCycleStartTime (startInterval s) = autoCycleStartTime s"
  by (simp_all add: startInterval_def window_setInterval_def Let_def)

lemma itemsLimit_step [simp]: "itemsLimit (step e s) = itemsLimit s"
  by (cases e)
     (simp_all add: layoutInit_def showLayout_def startCarousel_def setItem_def nextItem_def
        Let_def)

lemma itemsLimit_run [simp]: "itemsLimit (run es s) = itemsLimit s"
  by (induction es arbitrary: s) simp_all

lemma nextItem_under_cap:
  assumes "index_in_range s" and "\<not> over_cap now s"
  shows "currentItemIndex (nextItem now s) = (currentItemIndex s + 1) mod itemsLimit s"
proof (cases "currentItemIndex s + 1 < itemsLimit s")
  case True
  with assms show ?thesis
    by (simp add: nextItem_def index_in_range_def)
next
  case False
  with assms have "currentItemIndex s + 1 = itemsLimit s"
    by (simp add: index_in_range_def)
  with assms False show ?thesis
    by (simp add: nextItem_def)
qed

lemma index_in_range_nextItem: "index_in_range s \<Longrightarrow> index_in_range (nextItem now s)"
  by (auto simp: nextItem_def index_in_range_def)

lemma index_in_range_step:
  "index_in_range s \<Longrightarrow> hover_in_range s e \<Longrightarrow> index_in_range (step e s)"
proof (cases e)
  case (IntervalFires h now)
  assume "index_in_range s"
  with IntervalFires show ?thesis
    by (simp add: index_in_range_nextItem)
qed (simp_all add: index_in_range_def layoutInit_def showLayout_def startCarousel_def
       setItem_def Let_def)

lemma index_in_range_run:
  "index_in_range s \<Longrightarrow> hovers_in_range s es \<Longrightarrow> index_in_range (run es s)"
  by (induction es arbitrary: s) (simp_all add: index_in_range_step)

text \<open>
  Claim C2, as amended. The controller initialises the index in range. From a state whose
  index is in range, every sequence of carousel events in which each hover is on an item
  whose repeater index lies in \<open>0, \<dots>, itemsLimit - 1\<close> keeps
  \<open>0 \<le> currentItemIndex < itemsLimit\<close>, and a \<open>nextItem\<close> under the time cap then takes the
  index \<open>i\<close> to \<open>(i + 1) mod itemsLimit\<close>.
\<close>

theorem C2_index_in_range:
  "index_in_range LayoutController_init \<and>
   (index_in_range s \<and> hovers_in_range s es \<longrightarrow>
      index_in_range (run es s) \<and>
      (\<not> over_cap now (run es s) \<longrightarrow>
         currentItemIndex (nextItem now (run es s))
           = (currentItemIndex (run es s) + 1) mod itemsLimit (run es s)))"
proof (intro conjI impI)
  show "index_in_range LayoutController_init"
    by (simp add: index_in_range_def LayoutController_init_def)
next
  assume "index_in_range s \<and> hovers_in_range s es"
  then show "index_in_range (run es s)"
    by (simp add: index_in_range_run)
next
  assume "index_in_range s \<and> hovers_in_range s es" and "\<not> over_cap now (run es s)"
  then show "currentItemIndex (nextItem now (run es s))
      = (currentItemIndex (run es s) + 1) mod itemsLimit (run es s)"
    by (simp add: index_in_range_run nextItem_under_cap)
qed


theorem C2_index_in_range_witness:
  "index_in_range (LayoutController_init\<lparr> itemsLimit := 3 \<rparr>) \<and>
   hovers_in_range (LayoutController_init\<lparr> itemsLimit := 3 \<rparr>)
     [MouseOver 1, IntervalFires 1 5] \<and>
   index_in_range
     (run [MouseOver 1, IntervalFires 1 5] (LayoutController_init\<lparr> itemsLimit := 3 \<rparr>)) \<and>
   \<not> over_cap 20
     (run [MouseOver 1, IntervalFires 1 5] (LayoutController_init\<lparr> itemsLimit := 3 \<rparr>)) \<and>
   currentItemIndex
     (run [MouseOver 1, IntervalFires 1 5] (LayoutController_init\<lparr> itemsLimit := 3 \<rparr>)) = 2 \<and>
   currentItemIndex
     (nextItem 20
        (run [MouseOver 1, IntervalFires 1 5] (LayoutController_init\<lparr> itemsLimit := 3 \<rparr>)))
     = 0"
  using C2_index_in_range [of "LayoutController_init\<lparr> itemsLimit := 3 \<rparr>"
      "[MouseOver 1, IntervalFires 1 5]" 20]
  by (simp add: index_in_range_def LayoutController_init_def setItem_def startInterval_def
      window_setInterval_def nextItem_def over_cap_def timeElapsed_def Let_def)

text \<open>
  The claim as first stated, for every hover, fails: \<open>setItem\<close> stores the hovered item's
  repeater index unchecked, so a hover on the third item (index 2) leaves
  \<open>currentItemIndex = 2\<close> while \<open>itemsLimit = 1\<close>.
\<close>

theorem C2_hover_counterexample:
  "currentItemIndex (run [MouseOver 2] LayoutController_init) = 2 \<and>
   itemsLimit (run [MouseOver 2] LayoutController_init) = 1 \<and>
   \<not> index_in_range (run [MouseOver 2] LayoutController_init)"
  by (simp add: index_in_range_def LayoutController_init_def setItem_def startInterval_def
      window_setInterval_def Let_def)



lemma clearInterval_start_time [simp]:
  "intervals (clearInterval v (s\<lparr> autoCycleStartTime := t \<rparr>)) = intervals (clearInterval v s)"
  by (cases v) simp_all

lemma layoutInit_timer:
  "intervals (layoutInit now s) = intervals (if 1 < itemsLimit s then startInterval s else s)"
  "autoCycleInterval (layoutInit now s)
     = autoCycleInterval (if 1 < itemsLimit s then startInterval s else s)"
  "next_handle (layoutInit now s)
     = next_handle (if 1 < itemsLimit s then startInterval s else s)"
  by (simp_all add: layoutInit_def showLayout_def startCarousel_def startInterval_def
       window_setInterval_def Let_def)

lemma timers_ok_fresh: "timers_ok s \<Longrightarrow> next_handle s \<notin> set (intervals s)"
  by (auto simp: timers_ok_def split: option.splits)

text \<open>
  Claim C5. \<open>layoutInit\<close> starts the carousel timer exactly when \<open>itemsLimit > 1\<close>. When
  \<open>itemsLimit > 1\<close> it records the start time and registers the timer under the fresh
  handle \<open>setInterval\<close> returns; in a state that keeps the timer discipline (every state
  the events can reach) that timer is then the only one registered, it was not registered
  before, and its handle is stored in \<open>autoCycleInterval\<close>. When \<open>itemsLimit\<close> is 1 or
  less, the timers, the stored handle and the start time stay as they were. The
  controller sets \<open>itemsLimit = 1\<close> and nothing changes it, so after any sequence of
  events \<open>layoutInit\<close> starts no timer.
\<close>

theorem C5_layoutInit_carousel:
  "(timers_ok s \<longrightarrow>
      intervals (layoutInit now s)
        = (if 1 < itemsLimit s then [next_handle s] else intervals s) \<and>
      (\<exists>h \<in> set (intervals (layoutInit now s)). h \<notin> set (intervals s))
        = (1 < itemsLimit s)) \<and>
   (if 1 < itemsLimit s
    then next_handle s \<in> set (intervals (layoutInit now s)) \<and>
         autoCycleInterval (layoutInit now s) = Some (next_handle s)
    else intervals (layoutInit now s) = intervals s \<and>
         autoCycleInterval (layoutInit now s) = autoCycleInterval s) \<and>
   (next_handle (layoutInit now s) \<noteq> next_handle s) = (1 < itemsLimit s) \<and>
   autoCycleStartTime (layoutInit now s)
     = (if 1 < itemsLimit s then Some now else autoCycleStartTime s) \<and>
   itemsLimit (run es LayoutController_init) = 1 \<and>
   intervals (layoutInit now (run es LayoutController_init))
     = intervals (run es LayoutController_init) \<and>
   next_handle (layoutInit now (run es LayoutController_init))
     = next_handle (run es LayoutController_init) \<and>
   autoCycleInterval (layoutInit now (run es LayoutController_init))
     = autoCycleInterval (run es LayoutController_init) \<and>
   autoCycleStartTime (layoutInit now (run es LayoutController_init))
     = autoCycleStartTime (run es LayoutController_init)"
proof -
  have limit: "itemsLimit (run es LayoutController_init) = 1"
    by (simp add: LayoutController_init_def)
  have handle: "next_handle (startInterval t) = Suc (next_handle t)" for t
    by (simp add: startInterval_def window_setInterval_def Let_def)
  have stored: "autoCycleInterval (startInterval t) = Some (next_handle t)" for t
    by (simp add: startInterval_def window_setInterval_def Let_def)
  have registered: "next_handle t \<in> set (intervals (startInterval t))" for t
    by (simp add: startInterval_def window_setInterval_def Let_def)
  have started: "intervals (layoutInit now s)
        = (if 1 < itemsLimit s then [next_handle s] else intervals s) \<and>
      (\<exists>h \<in> set (intervals (layoutInit now s)). h \<notin> set (intervals s))
        = (1 < itemsLimit s)" if ok: "timers_ok s"
    using startInterval_intervals(1) [OF ok] timers_ok_fresh [OF ok]
    by (simp add: layoutInit_timer)
  have rest: "(if 1 < itemsLimit s
    then next_handle s \<in> set (intervals (layoutInit now s)) \<and>
         autoCycleInterval (layoutInit now s) = Some (next_handle s)
    else intervals (layoutInit now s) = intervals s \<and>
         autoCycleInterval (layoutInit now s) = autoCycleInterval s) \<and>
   (next_handle (layoutInit now s) \<noteq> next_handle s) = (1 < itemsLimit s)"
    by (simp add: layoutInit_timer handle stored registered)
  have start_time: "autoCycleStartTime (layoutInit now t)
     = (if 1 < itemsLimit t then Some now else autoCycleStartTime t)" for t
    by (simp add: layoutInit_def showLayout_def startCarousel_def Let_def)
  have idle: "intervals (layoutInit now (run es LayoutController_init))
       = intervals (run es LayoutController_init) \<and>
     next_handle (layoutInit now (run es LayoutController_init))
       = next_handle (run es LayoutController_init) \<and>
     autoCycleInterval (layoutInit now (run es LayoutController_init))
       = autoCycleInterval (run es LayoutController_init) \<and>
     autoCycleStartTime (layoutInit now (run es LayoutController_init))
       = autoCycleStartTime (run es LayoutController_init)"
    using limit by (simp add: layoutInit_timer start_time)
  show ?thesis
    using started rest start_time [of s] limit idle by blast
qed

theorem C5_layoutInit_carousel_witness:
  "timers_ok (LayoutController_init\<lparr> itemsLimit := 3 \<rparr>) \<and>
   intervals (LayoutController_init\<lparr> itemsLimit := 3 \<rparr>) = [] \<and>
   intervals (layoutInit 0 (LayoutController_init\<lparr> itemsLimit := 3 \<rparr>)) = [1] \<and>
   autoCycleInterval (layoutInit 0 (LayoutController_init\<lparr> itemsLimit := 3 \<rparr>)) = Some 1 \<and>
   autoCycleStartTime (layoutInit 0 (LayoutController_init\<lparr> itemsLimit := 3 \<rparr>)) = Some 0 \<and>
   timers_ok LayoutController_init \<and>
   intervals (layoutInit 0 LayoutController_init) = []"
  using C5_layoutInit_carousel [of "LayoutController_init\<lparr> itemsLimit := 3 \<rparr>" 0 "[]"]
    C5_layoutInit_carousel [of LayoutController_init 0 "[]"]
  by (simp add: LayoutController_init_def timers_ok_def)


section \<open>Properties of the font loader\<close>

lemma font_loader_rendered:
  "font_loader_run False FontsRendered =
     \<lparr> visibility = ''visible'', broadcasts = [''fontsLoaded''], pending = [],
       webfont_request = Some loadFonts_config \<rparr>"
  by (simp add: font_loader_run_def timeouts_fire_def webfont_settles_def loadFonts_def
      loadFonts_config_def page_loaded_def setTimeout_def FONTS_LOADED_def)

lemma font_loader_unsupported:
  "font_loader_run True outcome =
     \<lparr> visibility = ''visible'', broadcasts = [''fontsLoaded''], pending = [],
       webfont_request = None \<rparr>"
  by (simp add: font_loader_run_def timeouts_fire_def webfont_settles_def loadFonts_def
      page_loaded_def setTimeout_def FONTS_LOADED_def)

text \<open>
  Claim C4 says that the announcement is broadcast and the container shown on every path.
  It is on two of the three (the lemmas above). When the font request times out in a
  browser that is not Internet Explorer, nothing was registered to run: the execution
  ends with no broadcast, no timeout queued and the container still hidden.
\<close>

theorem C4_timeout_stalls:
  "font_loader_run False FontsTimedOut =
     \<lparr> visibility = ''hidden'', broadcasts = [], pending = [],
       webfont_request = Some loadFonts_config \<rparr>"
  by (simp add: font_loader_run_def timeouts_fire_def webfont_settles_def loadFonts_def
      loadFonts_config_def page_loaded_def)


section \<open>Properties of the animation builder\<close>

text \<open>
  Claim C6, as amended. The builder has three sequences, not four: \<open>SQUARE\<close> and
  \<open>VERTICAL\<close> each have their own, \<open>HORIZONTAL\<close> and \<open>MIN\<close> share the third (the two \<open>case\<close>
  labels stand before one body). Every timeline ends with the same tween of the stars.
\<close>

theorem C6_three_sequences:
  "layout_sequence SQUARE \<noteq> layout_sequence VERTICAL \<and>
   layout_sequence SQUARE \<noteq> layout_sequence HORIZONTAL \<and>
   layout_sequence VERTICAL \<noteq> layout_sequence HORIZONTAL \<and>
   layout_sequence MIN_TYPE = layout_sequence HORIZONTAL \<and>
   timeline (buildAnimation layoutType) =
     layout_sequence layoutType @
       [StaggerFrom ''.star'' (25/100) [(''alpha'', Num 0)] (75/1000) (Some ''-=1.5'')]"
  by (simp add: buildAnimation_def horizontal_sequence_def fade_logo_in_def)

text \<open>
  The claim as first stated gives each of the four layout types a sequence of its own;
  \<open>HORIZONTAL\<close> and \<open>MIN\<close> are different layout types with the same animation.
\<close>

theorem C6_shared_sequence_counterexample:
  "HORIZONTAL \<noteq> MIN_TYPE \<and> buildAnimation HORIZONTAL = buildAnimation MIN_TYPE"
  by (simp add: buildAnimation_def)


section \<open>Properties of the layout specification\<close>

text \<open>
  Claim C7. The file declares the occurrences of \<open>Headline\<close> as 1 to 1, of \<open>Design\<close> as 1
  to 1 and of \<open>Product\<close> as 3 to 3, least and greatest number equal for each kind; so a
  payload meets the declared constraints exactly when it has one \<open>Headline\<close>, one \<open>Design\<close>
  and three \<open>Product\<close> entities, and any payload with fewer or more of a kind does not.
\<close>

theorem C7_declared_occurrences:
  "occurrences layout_spec = [(''Headline'', 1, 1), (''Design'', 1, 1), (''Product'', 3, 3)] \<and>
   list_all (\<lambda>(kind, lo, hi). lo = hi) (occurrences layout_spec) \<and>
   payload_valid layout_spec kinds =
     (count_list kinds ''Headline'' = 1 \<and> count_list kinds ''Design'' = 1 \<and>
      count_list kinds ''Product'' = 3)"
proof -
  have occ: "occurrences layout_spec
      = [(''Headline'', 1, 1), (''Design'', 1, 1), (''Product'', 3, 3)]"
    by (simp add: layout_spec_def)
  show ?thesis
    unfolding payload_valid_def occ by auto
qed


section \<open>Properties of the prices\<close>

text \<open>
  Claim C9. The controller's initialisation goes through the products once, in order, and
  changes nothing but the price: the price becomes the sale price when the product has one
  (\<open>salePrice\<close> is truthy: a non-empty string or a number other than 0) and stays the
  regular price otherwise (\<open>salePrice\<close> is \<open>undefined\<close>, \<open>null\<close>, empty or 0).
\<close>

theorem C9_sale_price_shown:
  "map price (LayoutController_products ps)
     = map (\<lambda>p. if truthy (salePrice p) then salePrice p else price p) ps \<and>
   map salePrice (LayoutController_products ps) = map salePrice ps \<and>
   map name (LayoutController_products ps) = map name ps \<and>
   map url (LayoutController_products ps) = map url ps \<and>
   map imageUrl (LayoutController_products ps) = map imageUrl ps \<and>
   price (show_sale_price (p\<lparr> salePrice := JStr (c # cs) \<rparr>)) = JStr (c # cs) \<and>
   price (show_sale_price (p\<lparr> salePrice := JUndefined \<rparr>)) = price p"
  by (simp add: LayoutController_products_def show_sale_price_def js_or_def)

lemma sale_price_example:
  "map price (LayoutController_products
     [\<lparr> name = JStr ''Lamp'', url = JStr ''/lamp'', imageUrl = JStr ''/lamp.png'',
        subTitle = JUndefined, rating = JUndefined,
        price = JStr ''$20'', salePrice = JStr ''$15'' \<rparr>,
      \<lparr> name = JStr ''Desk'', url = JStr ''/desk'', imageUrl = JStr ''/desk.png'',
        subTitle = JUndefined, rating = JUndefined,
        price = JStr ''$90'', salePrice = JUndefined \<rparr>])
   = [JStr ''$15'', JStr ''$90'']"
  by (simp add: LayoutController_products_def show_sale_price_def js_or_def)


section \<open>Properties of the preloading\<close>

lemma handled_onAdData [simp]: "handled (onAdData d pg) = handled pg"
  by (simp add: onAdData_def split: prod.splits option.splits)

lemma handled_without_completion:
  "PreloaderCompletes \<notin> set es \<Longrightarrow> handled (page_run es pg) = handled pg"
proof (induction es arbitrary: pg)
  case Nil
  show ?case by simp
next
  case (Cons e es)
  then show ?case by (cases e) simp_all
qed

text \<open>
  Claim C8. For a payload with a \<open>Design\<close> (the first one is the one used), the calls
  \<open>initPreloading\<close> makes on the preloader are exactly: \<open>addImage\<close> of the image URL of
  each parsed product, in order, then of the design's logo image URL, then of its
  background image URL; no error is thrown. The data handling (\<open>utils.onAdData\<close>) is not
  run by \<open>window.onAdData\<close> itself, and not by any sequence of events in which the
  preloader has not reported completion; once it reports, the payload is handled.
\<close>

theorem C8_preloading:
  assumes "designs d = dsgn # rest" and "PreloaderCompletes \<notin> set es"
  shows "initPreloading d [] =
      (map (\<lambda>p. AddImage (imageUrl p)) (products d)
         @ [AddImage (logoImageUrl dsgn), AddImage (bgImageUrl dsgn)], None) \<and>
    preloader_calls (onAdData d page_start) =
      map (\<lambda>p. AddImage (imageUrl p)) (products d)
        @ [AddImage (logoImageUrl dsgn), AddImage (bgImageUrl dsgn), AddCompletionListener, Start] \<and>
    handled (onAdData d page_start) = [] \<and>
    handled (page_run es page_start) = [] \<and>
    handled (page_run [AdData d, PreloaderCompletes] page_start) = [d]"
proof -
  have init: "initPreloading d [] =
      (map (\<lambda>p. AddImage (imageUrl p)) (products d)
         @ [AddImage (logoImageUrl dsgn), AddImage (bgImageUrl dsgn)], None)"
    using assms(1) by (simp add: initPreloading_def)
  have started: "onAdData d page_start =
      \<lparr> preloader_calls = map (\<lambda>p. AddImage (imageUrl p)) (products d)
           @ [AddImage (logoImageUrl dsgn), AddImage (bgImageUrl dsgn), AddCompletionListener, Start],
        listeners = [d], handled = [], uncaught = None \<rparr>"
    using init by (simp add: onAdData_def page_start_def)
  have quiet: "handled (page_run es page_start) = []"
    using handled_without_completion [OF assms(2), of page_start] by (simp add: page_start_def)
  show ?thesis
    using init quiet by (simp add: started preloader_completes_def)
qed

theorem C8_preloading_witness:
  "designs \<lparr> designs = [\<lparr> logoImageUrl = JStr ''logo.png'', bgImageUrl = JStr ''bg.png'' \<rparr>],
      products = [\<lparr> name = JStr ''Lamp'', url = JStr ''/lamp'', imageUrl = JStr ''lamp.png'',
        subTitle = JUndefined, rating = JUndefined,
        price = JStr ''$20'', salePrice = JUndefined \<rparr>] \<rparr>
     = [\<lparr> logoImageUrl = JStr ''logo.png'', bgImageUrl = JStr ''bg.png'' \<rparr>] \<and>
   PreloaderCompletes \<notin> set ([] :: page_event list) \<and>
   preloader_calls (onAdData
     \<lparr> designs = [\<lparr> logoImageUrl = JStr ''logo.png'', bgImageUrl = JStr ''bg.png'' \<rparr>],
       products = [\<lparr> name = JStr ''Lamp'', url = JStr ''/lamp'', imageUrl = JStr ''lamp.png'',
         subTitle = JUndefined, rating = JUndefined,
         price = JStr ''$20'', salePrice = JUndefined \<rparr>] \<rparr> page_start)
     = [AddImage (JStr ''lamp.png''), AddImage (JStr ''logo.png''), AddImage (JStr ''bg.png''),
        AddCompletionListener, Start] \<and>
   handled (onAdData
     \<lparr> designs = [\<lparr> logoImageUrl = JStr ''logo.png'', bgImageUrl = JStr ''bg.png'' \<rparr>],
       products = [\<lparr> name = JStr ''Lamp'', url = JStr ''/lamp'', imageUrl = JStr ''lamp.png'',
         subTitle = JUndefined, rating = JUndefined,
         price = JStr ''$20'', salePrice = JUndefined \<rparr>] \<rparr> page_start) = []"
  using C8_preloading [of
      "\<lparr> designs = [\<lparr> logoImageUrl = JStr ''logo.png'', bgImageUrl = JStr ''bg.png'' \<rparr>],
         products = [\<lparr> name = JStr ''Lamp'', url = JStr ''/lamp'', imageUrl = JStr ''lamp.png'',
           subTitle = JUndefined, rating = JUndefined,
           price = JStr ''$20'', salePrice = JUndefined \<rparr>] \<rparr>"
      "\<lparr> logoImageUrl = JStr ''logo.png'', bgImageUrl = JStr ''bg.png'' \<rparr>" "[]" "[]"]
  by simp

lemma initPreloading_without_design:
  "designs d = [] \<Longrightarrow>
   initPreloading d [] = (map (\<lambda>p. AddImage (imageUrl p)) (products d), Some TypeError)"
  by (simp add: initPreloading_def)


section \<open>Properties of the text-fit normaliser\<close>

lemma set_font_size_style:
  "el_style (set_font_size v el) = Some v \<and>
   (case spans (set_font_size v el) of [] \<Rightarrow> True | sp # sps \<Rightarrow> span_style sp = Some v)"
  by (simp add: set_font_size_def split: list.splits)

lemma uniformSize_same_size:
  "el \<in> set (uniformSize els) \<Longrightarrow>
   el_style el = Some (to_string (smallestFontSize els) @ ''px'') \<and>
   (case spans el of [] \<Rightarrow> True
    | sp # sps \<Rightarrow> span_style sp = Some (to_string (smallestFontSize els) @ ''px''))"
  using set_font_size_style by (auto simp: uniformSize_def)

lemma numeric_span_attr:
  assumes "list_all (numeric_span sps) sps" and "Some a \<in> set (map minfontsize sps)"
  shows "string_to_number a = Finite (attribute_value (Some a))"
proof -
  from assms(2) obtain sp where sp: "sp \<in> set sps" "minfontsize sp = Some a"
    by auto
  with assms(1) have "finite_attribute (Some a)"
    by (auto simp: list_all_iff numeric_span_def)
  then show ?thesis
    by (simp add: finite_attribute_def attribute_value_def split: js_number.splits)
qed

lemma numeric_span_order:
  assumes "list_all (numeric_span sps) sps"
    and "Some a \<in> set (map minfontsize sps)" and "Some b \<in> set (map minfontsize sps)"
  shows "str_less a b = (attribute_value (Some a) < attribute_value (Some b))"
proof -
  from assms(2) obtain sp where sp: "sp \<in> set sps" "minfontsize sp = Some a"
    by auto
  from assms(3) obtain sp' where sp': "sp' \<in> set sps" "minfontsize sp' = Some b"
    by auto
  from assms(1) sp have "list_all (\<lambda>sp'. same_order (Some a) (minfontsize sp') \<and>
                      same_order (minfontsize sp') (Some a)) sps"
    by (auto simp: list_all_iff numeric_span_def)
  with sp' have "same_order (Some a) (Some b)"
    by (auto simp: list_all_iff)
  then show ?thesis
    by (simp add: same_order_def)
qed

lemma tracked_number:
  assumes "list_all (numeric_span sps) sps" and "tracked sps v"
  shows "to_number v = Finite (numeric_value v)"
proof (cases v)
  case (JStr a)
  with assms have "string_to_number a = Finite (attribute_value (Some a))"
    by (auto intro: numeric_span_attr)
  with JStr show ?thesis
    by (simp add: numeric_value_def)
qed (use assms in \<open>simp_all add: numeric_value_def\<close>)

lemma js_less_tracked:
  assumes all: "list_all (numeric_span sps) sps" and x: "tracked sps x" and y: "tracked sps y"
  shows "js_less x y = (numeric_value x < numeric_value y)"
proof (cases "\<exists>a b. x = JStr a \<and> y = JStr b")
  case True
  then obtain a b where ab: "x = JStr a" "y = JStr b"
    by blast
  have ta: "Some a \<in> set (map minfontsize sps)"
    using x ab by simp
  have tb: "Some b \<in> set (map minfontsize sps)"
    using y ab by simp
  have "str_less a b = (attribute_value (Some a) < attribute_value (Some b))"
    by (rule numeric_span_order [OF all ta tb])
  moreover have "numeric_value x = attribute_value (Some a)"
    using tracked_number [OF all x] numeric_span_attr [OF all ta] ab by simp
  moreover have "numeric_value y = attribute_value (Some b)"
    using tracked_number [OF all y] numeric_span_attr [OF all tb] ab by simp
  ultimately show ?thesis
    using ab by simp
next
  case False
  then have "js_less x y = number_less (to_number x) (to_number y)"
    by (cases x; cases y) simp_all
  then show ?thesis
    by (simp add: tracked_number [OF all x] tracked_number [OF all y])
qed

lemma smaller_font_hidden: "\<not> offsetParent sp \<Longrightarrow> smaller_font acc sp = acc"
  by (simp add: smaller_font_def)

lemma clamp_tracked:
  assumes all: "list_all (numeric_span sps) sps" and sp: "sp \<in> set sps"
  defines "m \<equiv> (case minfontsize sp of None \<Rightarrow> JNull | Some a \<Rightarrow> JStr a)"
  defines "p \<equiv> (case font_size sp of None \<Rightarrow> JNaN | Some n \<Rightarrow> JNum n)"
  defines "x \<equiv> (if js_less p m then m else p)"
  shows "tracked sps x \<and> numeric_value x = clamped_size sp"
proof -
  from all sp have ns: "numeric_span sps sp"
    by (simp add: list_all_iff)
  then obtain f where f: "font_size sp = Some f"
    by (auto simp: numeric_span_def split: option.splits)
  have p: "tracked sps p" "numeric_value p = of_int f"
    using f by (simp_all add: p_def numeric_value_def)
  have m: "tracked sps m" "numeric_value m = attribute_value (minfontsize sp)"
  proof -
    show "tracked sps m"
      using sp by (cases "minfontsize sp") (force simp: m_def)+
    then show "numeric_value m = attribute_value (minfontsize sp)"
      using tracked_number [OF all, of m]
      by (cases "minfontsize sp")
         (simp_all add: m_def numeric_value_def attribute_value_def)
  qed
  have "js_less p m = (numeric_value p < numeric_value m)"
    by (rule js_less_tracked [OF all p(1) m(1)])
  then show ?thesis
    using p m f by (auto simp: x_def clamped_size_def max_def)
qed

lemma smaller_font_tracked:
  assumes all: "list_all (numeric_span sps) sps" and sp: "sp \<in> set sps"
    and vis: "offsetParent sp" and acc: "tracked sps acc"
  shows "tracked sps (smaller_font acc sp) \<and>
         numeric_value (smaller_font acc sp) = min (numeric_value acc) (clamped_size sp)"
proof -
  let ?m = "(case minfontsize sp of None \<Rightarrow> JNull | Some a \<Rightarrow> JStr a)"
  let ?p = "(case font_size sp of None \<Rightarrow> JNaN | Some n \<Rightarrow> JNum n)"
  let ?x = "(if js_less ?p ?m then ?m else ?p)"
  have x: "tracked sps ?x" "numeric_value ?x = clamped_size sp"
    using clamp_tracked [OF all sp] by simp_all
  have step: "smaller_font acc sp = (if js_less ?x acc then ?x else acc)"
    using vis by (simp add: smaller_font_def Let_def)
  have less: "js_less ?x acc = (clamped_size sp < numeric_value acc)"
    using js_less_tracked [OF all x(1) acc] x(2) by simp
  show ?thesis
    unfolding step less using x acc by (auto simp: min_def)
qed

lemma foldl_smaller_font:
  assumes all: "list_all (numeric_span sps) sps"
  shows "set (filter offsetParent ts) \<subseteq> set sps \<Longrightarrow> tracked sps acc \<Longrightarrow>
     tracked sps (foldl smaller_font acc ts) \<and>
     numeric_value (foldl smaller_font acc ts)
       = Min (set (numeric_value acc # map clamped_size (filter offsetParent ts)))"
proof (induction ts arbitrary: acc)
  case Nil
  then show ?case by simp
next
  case (Cons t ts)
  show ?case
  proof (cases "offsetParent t")
    case False
    with Cons show ?thesis
      by (simp add: smaller_font_hidden)
  next
    case True
    with Cons.prems have t: "t \<in> set sps" and rest: "set (filter offsetParent ts) \<subseteq> set sps"
      by auto
    have st: "tracked sps (smaller_font acc t)"
      "numeric_value (smaller_font acc t) = min (numeric_value acc) (clamped_size t)"
      using smaller_font_tracked [OF all t True Cons.prems(2)] by simp_all
    have "Min (insert (min (numeric_value acc) (clamped_size t)) A)
        = Min (insert (numeric_value acc) (insert (clamped_size t) A))" if "finite A" for A
      using that by (cases "A = {}") (simp_all add: min.assoc)
    then show ?thesis
      using Cons.IH [OF rest st(1)] True st(2) by simp
  qed
qed

text \<open>
  Where the code agrees with the specification: in a numeric group the size the loop ends
  with is, as a number, the least of 1000 and the clamped sizes of the visible spans.
\<close>

lemma numeric_group_size:
  assumes "numeric_group els"
  shows "to_number (smallestFontSize els) = Finite (capped_minimum els)"
proof -
  let ?vs = "visible_spans els"
  have all: "list_all (numeric_span ?vs) ?vs"
    using assms by (simp add: numeric_group_def)
  have sub: "set (filter offsetParent (concat (map spans els))) \<subseteq> set ?vs"
    by (simp add: visible_spans_def)
  have tr: "tracked ?vs (JNum 1000)"
    by simp
  have "tracked ?vs (smallestFontSize els)"
    and "numeric_value (smallestFontSize els) = capped_minimum els"
    using foldl_smaller_font [OF all sub tr]
    by (simp_all add: smallestFontSize_def capped_minimum_def visible_spans_def numeric_value_def)
  then show ?thesis
    using tracked_number [OF all] by simp
qed

lemmas number_defs =
  string_to_number_def trim_def is_space_def is_digit_def hex_val_def digits_value_def
  exponent_part_def scale_def unsigned_decimal_def signed_decimal_def literal_base_def

lemmas normaliser_defs =
  numeric_group_def numeric_span_def finite_attribute_def same_order_def
  attribute_value_def show_int_def show_nat.simps
  visible_spans_def capped_minimum_def claimed_minimum_def clamped_size_def uniformSize_def
  set_font_size_def smallestFontSize_def smaller_font_def Let_def

lemma string_to_number_examples:
  "string_to_number ''9'' = Finite 9"
  "string_to_number ''10'' = Finite 10"
  "string_to_number ''12'' = Finite 12"
  "string_to_number ''12.5'' = Finite (25 / 2)"
  "string_to_number '' 1e-2 '' = Finite (1 / 100)"
  "string_to_number ''0x1F'' = Finite 31"
  "string_to_number ''-Infinity'' = NegInfinity"
  "string_to_number ''12px'' = NaN"
  "string_to_number [] = Finite 0"
  by (simp_all add: number_defs Let_def)

text \<open>
  The normaliser run on a numeric group, and on a group whose minimum is a fraction.
\<close>

lemma fitted_group_size:
  "numeric_group fitted_group \<and>
   capped_minimum fitted_group = 10 \<and>
   map el_style (uniformSize fitted_group) = [Some ''10px'', Some ''10px''] \<and>
   map (\<lambda>el. map span_style (spans el)) (uniformSize fitted_group)
     = [[Some ''10px''], [Some ''10px'', None]]"
  by (simp add: fitted_group_def normaliser_defs string_to_number_examples)

lemma fraction_group_size:
  "map el_style (uniformSize fraction_group) = [Some ''12.5px'']"
  by (simp add: fraction_group_def normaliser_defs string_to_number_examples)

text \<open>
  Claim C1 says that every element of the group gets the same size and that this size is
  the least clamped size of the visible spans. The first half holds for every group
  (\<open>uniformSize_same_size\<close>); the second does not. The first loop assigns the
  \<open>minfontsize\<close> attribute as the string it is, and \<open><\<close> compares two strings as strings:
  in a group of two elements whose spans are rendered at 5 and 4 px with the minimums
  \<open>9\<close> and \<open>10\<close>, the clamped sizes are 9 and 10 and the least is 9, but the loop holds
  \<open>''9''\<close>, finds \<open>''10'' < ''9''\<close> and sets \<open>10px\<close> on both elements and their spans.
\<close>

theorem C1_string_comparison:
  "claimed_minimum mixed_length_group = 9 \<and>
   smallestFontSize mixed_length_group = JStr ''10'' \<and>
   map el_style (uniformSize mixed_length_group) = [Some ''10px'', Some ''10px''] \<and>
   map (\<lambda>el. map span_style (spans el)) (uniformSize mixed_length_group)
     = [[Some ''10px''], [Some ''10px'']]"
  by (simp add: mixed_length_group_def normaliser_defs string_to_number_examples)

text \<open>
  The loop starts from 1000 and not from the first size it meets, so no size above 1000
  is ever found: a lone visible span rendered at 1200 px is set to \<open>1000px\<close>.
\<close>

lemma uniformSize_start_value:
  "claimed_minimum huge_group = 1200 \<and>
   map el_style (uniformSize huge_group) = [Some ''1000px'']"
  by (simp add: huge_group_def normaliser_defs)

end
